theory Spec2Isabelle
  imports Complex_Main "HOL-Library.Sublist"
begin

section \<open>Python strings\<close>

text \<open>
  A Python \<open>str\<close> is modelled as a \<open>string\<close>: a list of characters, each standing for the
  code point of the same number (code points below 256). \<open>isspace\<close> is Python's
  \<open>str.isspace\<close> on those code points: U+0009..U+000D, U+001C..U+001F, U+0020, U+0085
  and U+00A0. \<open>strip\<close> is \<open>str.strip()\<close> with no argument, \<open>str_join\<close> is
  \<open>sep.join(xs)\<close> on a list of strings. The \<open>print\<close> and \<open>logger\<close> calls of the source
  only write to the console and are left out.
\<close>

definition isspace :: "char \<Rightarrow> bool" where
  "isspace c = (let n = (of_char c :: nat) in
     (9 \<le> n \<and> n \<le> 13) \<or> (28 \<le> n \<and> n \<le> 32) \<or> n = 133 \<or> n = 160)"

definition lstrip :: "string \<Rightarrow> string" where
  "lstrip s = dropWhile isspace s"

definition rstrip :: "string \<Rightarrow> string" where
  "rstrip s = rev (dropWhile isspace (rev s))"

definition strip :: "string \<Rightarrow> string" where
  "strip s = rstrip (lstrip s)"

fun str_join :: "string \<Rightarrow> string list \<Rightarrow> string" where
  "str_join sep [] = []"
| "str_join sep [x] = x"
| "str_join sep (x # y # ys) = x @ sep @ str_join sep (y # ys)"

definition newline :: string where
  "newline = [CHR 0x0A]"

section \<open>The prompt assembler: \<open>ChatbotService._construct_prompt\<close>\<close>

text \<open>
  The f-string of \<open>_construct_prompt\<close> is the concatenation of three fixed texts with the
  two substituted values: \<open>prompt_head\<close> (everything before \<open>{context_str}\<close>),
  \<open>prompt_mid\<close> (between \<open>{context_str}\<close> and \<open>{query}\<close>) and \<open>prompt_tail\<close> (after
  \<open>{query}\<close>). The two sentences of the head that carry the grounding policy are named.
\<close>

definition only_from_context :: string where
  \<open>only_from_context = ''Your primary goal is to assist users with their questions based *only* on the information provided in the "Knowledge Base Context" below.''\<close>

definition say_if_insufficient :: string where
  \<open>say_if_insufficient = ''If the context does not contain the answer to the question, clearly state that you don't have enough information from the knowledge base.''\<close>

definition prompt_head :: string where
  \<open>prompt_head =
     ''You are an empathetic and helpful AI assistant. '' @ only_from_context @ newline @
     say_if_insufficient @ '' Do not make up information or answer from your general knowledge.'' @ newline @
     ''Be polite, understanding, and aim to provide clear and concise answers.'' @ newline @
     newline @
     ''Knowledge Base Context:'' @ newline @
     ''---'' @ newline\<close>

definition prompt_mid :: string where
  \<open>prompt_mid =
     newline @
     ''---'' @ newline @
     newline @
     ''User's Question: ''\<close>

definition prompt_tail :: string where
  \<open>prompt_tail =
     newline @
     newline @
     ''Helpful and Empathetic Answer (based *only* on the Knowledge Base Context):'' @ newline\<close>

definition no_information_sentence :: string where
  \<open>no_information_sentence = ''No specific information found in the knowledge base for this query.''\<close>

definition blank_line :: string where
  "blank_line = newline @ newline"

definition context_str :: "string list \<Rightarrow> string" where
  "context_str context_documents =
     (if context_documents = [] then no_information_sentence
      else str_join blank_line context_documents)"

definition construct_prompt :: "string \<Rightarrow> string list \<Rightarrow> string" where
  "construct_prompt query context_documents =
     prompt_head @ context_str context_documents @ prompt_mid @ query @ prompt_tail"

section \<open>The collaborators of the service\<close>

text \<open>
  The embedding model, the vector-index collection and the chat-completion client are
  libraries outside the repository. Each is modelled by what a call returns: a value, or
  \<open>Inl\<close> of the exception it raises. \<open>py_exception\<close> stands for an instance of Python's
  \<open>Exception\<close> class (or of a subclass), which is what \<open>except Exception\<close> catches; the
  string names it.

  The result of \<open>collection.query\<close> is dictionary-like. Each of the keys \<open>documents\<close>,
  \<open>metadatas\<close> and \<open>distances\<close> is absent (\<open>Missing\<close>), holds \<open>None\<close> (\<open>NoneValue\<close>), or holds a
  list with one row per query embedding (\<open>Rows\<close>). \<open>first_row\<close> is the source's
  \<open>results.get(key, [[]])[0]\<close>: the default \<open>[[]]\<close> for an absent key, \<open>TypeError\<close> on
  subscripting \<open>None\<close>, \<open>IndexError\<close> on an empty list.

  A chat completion is modelled by its \<open>choices\<close>, each given by \<open>message.content\<close> (which
  may be \<open>None\<close>). A \<open>ChatbotService\<close> value fixes what each collaborator answers to each
  call during one run. The trace \<open>call list\<close> records every call the service issues to a
  collaborator, in order; every function of the service takes the trace so far and returns
  it extended. The sampling temperature is the decimal literal \<open>0.3\<close> of the source.
\<close>

datatype py_exception = PyException string

datatype 'a field = Missing | NoneValue | Rows "'a list list"

record ('m, 'd) QueryResult =
  documents :: "string field"
  metadatas :: "'m field"
  distances :: "'d field"

fun first_row :: "'a field \<Rightarrow> py_exception + 'a list" where
  "first_row Missing = Inr []"
| "first_row NoneValue = Inl (PyException ''TypeError'')"
| "first_row (Rows []) = Inl (PyException ''IndexError'')"
| "first_row (Rows (r # rs)) = Inr r"

record ChatMessage =
  role :: string
  content :: string

record ChatRequest =
  model :: string
  messages :: "ChatMessage list"
  temperature :: rat

record ChatCompletion =
  choices :: "string option list"

datatype 'e call =
    Encode string
  | CollectionQuery "'e list" nat "string list"
  | ChatCompletionsCreate ChatRequest

record ('e, 'm, 'd) ChatbotService =
  embedding_model :: "string \<Rightarrow> py_exception + 'e"
  collection :: "'e list \<Rightarrow> nat \<Rightarrow> string list \<Rightarrow> py_exception + ('m, 'd) QueryResult"
  llm_client :: "ChatRequest \<Rightarrow> py_exception + ChatCompletion"

section \<open>The service: \<open>ChatbotService\<close>\<close>

definition OLLAMA_MODEL_NAME :: string where
  "OLLAMA_MODEL_NAME = ''koesn/llama3-8b-instruct:latest''"

definition system_message :: string where
  "system_message = ''You are a helpful AI assistant designed to answer questions based on provided context.''"

definition apology :: string where
  \<open>apology = ''I'm sorry, but I encountered an issue while trying to generate a response. Please try again later.''\<close>

definition query_include :: "string list" where
  "query_include = [''documents'', ''metadatas'', ''distances'']"

definition embed_query ::
  "('e, 'm, 'd) ChatbotService \<Rightarrow> string \<Rightarrow> 'e call list \<Rightarrow> (py_exception + 'e) \<times> 'e call list" where
  "embed_query self query tr = (embedding_model self query, tr @ [Encode query])"

definition retrieve_context ::
  "('e, 'm, 'd) ChatbotService \<Rightarrow> 'e \<Rightarrow> nat \<Rightarrow> 'e call list
     \<Rightarrow> (string list \<times> 'm list \<times> 'd list) \<times> 'e call list" where
  "retrieve_context self query_embedding n_results tr =
     (let tr' = tr @ [CollectionQuery [query_embedding] n_results query_include] in
      case collection self [query_embedding] n_results query_include of
        Inl e \<Rightarrow> (([], [], []), tr')
      | Inr results \<Rightarrow>
          (case first_row (documents results) of
             Inl e \<Rightarrow> (([], [], []), tr')
           | Inr retrieved_docs \<Rightarrow>
               (case first_row (metadatas results) of
                  Inl e \<Rightarrow> (([], [], []), tr')
                | Inr retrieved_metadatas \<Rightarrow>
                    (case first_row (distances results) of
                       Inl e \<Rightarrow> (([], [], []), tr')
                     | Inr retrieved_distances \<Rightarrow>
                         ((retrieved_docs, retrieved_metadatas, retrieved_distances), tr')))))"

definition chat_request :: "string \<Rightarrow> ChatRequest" where
  "chat_request prompt =
     \<lparr>model = OLLAMA_MODEL_NAME,
      messages = [\<lparr>role = ''system'', content = system_message\<rparr>,
                  \<lparr>role = ''user'', content = prompt\<rparr>],
      temperature = 3 / 10\<rparr>"

definition generate_llm_response ::
  "('e, 'm, 'd) ChatbotService \<Rightarrow> string \<Rightarrow> 'e call list \<Rightarrow> string \<times> 'e call list" where
  "generate_llm_response self prompt tr =
     (let tr' = tr @ [ChatCompletionsCreate (chat_request prompt)] in
      case llm_client self (chat_request prompt) of
        Inl e \<Rightarrow> (apology, tr')
      | Inr response \<Rightarrow>
          (case choices response of
             [] \<Rightarrow> (apology, tr')
           | c # cs \<Rightarrow>
               (case c of
                  None \<Rightarrow> (apology, tr')
                | Some message_content \<Rightarrow> (strip message_content, tr'))))"

definition get_rag_response ::
  "('e, 'm, 'd) ChatbotService \<Rightarrow> string \<Rightarrow> 'e call list \<Rightarrow> (py_exception + string) \<times> 'e call list" where
  "get_rag_response self query tr =
     (case embed_query self query tr of
        (Inl e, tr1) \<Rightarrow> (Inl e, tr1)
      | (Inr query_embedding, tr1) \<Rightarrow>
          (case retrieve_context self query_embedding 3 tr1 of
             ((context_documents, context_metadatas, context_distances), tr2) \<Rightarrow>
               (let prompt = construct_prompt query context_documents in
                case generate_llm_response self prompt tr2 of
                  (final_response, tr3) \<Rightarrow> (Inr final_response, tr3))))"

section \<open>The HTTP handler: \<open>handle_chat_query\<close>\<close>

text \<open>
  The handler returns a \<open>ChatResponse\<close> (HTTP 200) or raises an \<open>HTTPException\<close> with a
  status code and a detail. The module-level \<open>chatbot_service_instance\<close> is \<open>None\<close> when
  the service could not be constructed at start-up. An exception of the service is one of
  the \<open>Exception\<close> class (the handler's own \<open>HTTPException\<close>s are raised before the service
  is called).
\<close>

datatype http_result = ChatResponse string | HTTPException nat string

definition handle_chat_query ::
  "('e, 'm, 'd) ChatbotService option \<Rightarrow> string \<Rightarrow> 'e call list \<Rightarrow> http_result \<times> 'e call list" where
  "handle_chat_query chatbot_service_instance query tr =
     (case chatbot_service_instance of
        None \<Rightarrow>
          (HTTPException 503 ''Chatbot service is currently unavailable. Please check server logs.'', tr)
      | Some service \<Rightarrow>
          if query = [] \<or> strip query = [] then (HTTPException 400 ''Query cannot be empty.'', tr)
          else
            (case get_rag_response service query tr of
               (Inr bot_answer, tr') \<Rightarrow> (ChatResponse bot_answer, tr')
             | (Inl e, tr') \<Rightarrow> (HTTPException 500 ''An internal server error occurred.'', tr')))"

fun status_code :: "http_result \<Rightarrow> nat" where
  "status_code (ChatResponse answer) = 200"
| "status_code (HTTPException code detail) = code"

section \<open>The offline builder: \<open>scripts/build_knowledge_base.py\<close>\<close>

text \<open>
  An FAQ record is a dictionary with the keys \<open>id\<close>, \<open>question\<close> and \<open>answer\<close> (the field
  \<open>ident\<close> is the key \<open>id\<close>); the metadata stored with a document has the keys
  \<open>original_question\<close>, \<open>original_answer\<close> and \<open>faq_id\<close>. The parameters \<open>documents\<close> and
  \<open>metadatas\<close> of the source are written \<open>docs\<close> and \<open>metas\<close> here.

  \<open>preprocess_loop\<close> is the \<open>for\<close> loop of \<open>preprocess_faqs\<close> with its two accumulators.
  \<open>str_of_nat\<close> is Python's \<open>str\<close> on a non-negative \<open>int\<close> (decimal, no leading zero), and
  \<open>doc_ids n\<close> is \<open>[f"doc_{i}" for i in range(n)]\<close>.
\<close>

record 'i FAQ =
  ident :: 'i
  question :: string
  answer :: string
















section \<open>Example services and build environments\<close>

text \<open>
  Concrete services, FAQ records and a build environment on which the theorems below are
  evaluated. Embeddings are lists of integers, a metadata entry of a query result is a
  string, a distance is a natural number.
\<close>

definition example_result :: "(string, nat) QueryResult" where
  "example_result =
     \<lparr>documents = Rows [[''Question: What are my payment options? Answer: Credit card, bank transfer.'']],
      metadatas = Rows [[''1'']],
      distances = Rows [[0]]\<rparr>"

definition example_service :: "(int list, string, nat) ChatbotService" where
  "example_service =
     \<lparr>embedding_model = (\<lambda>q. Inr [1, 2]),
      collection = (\<lambda>vs n inc. Inr example_result),
      llm_client = (\<lambda>req. Inr \<lparr>choices = [Some '' Credit card or bank transfer. '']\<rparr>)\<rparr>"

definition blank_llm_service :: "(int list, string, nat) ChatbotService" where
  "blank_llm_service = example_service\<lparr>llm_client := (\<lambda>req. Inr \<lparr>choices = [Some ''  '']\<rparr>)\<rparr>"

definition failing_embedding_service :: "(int list, string, nat) ChatbotService" where
  "failing_embedding_service =
     example_service\<lparr>embedding_model := (\<lambda>q. Inl (PyException ''RuntimeError''))\<rparr>"

definition failing_index_service :: "(int list, string, nat) ChatbotService" where
  "failing_index_service =
     example_service\<lparr>collection := (\<lambda>vs n inc. Inl (PyException ''InternalError''))\<rparr>"

definition failing_llm_service :: "(int list, string, nat) ChatbotService" where
  "failing_llm_service =
     example_service\<lparr>llm_client := (\<lambda>req. Inl (PyException ''APIConnectionError''))\<rparr>"

definition no_choice_llm_service :: "(int list, string, nat) ChatbotService" where
  "no_choice_llm_service = example_service\<lparr>llm_client := (\<lambda>req. Inr \<lparr>choices = []\<rparr>)\<rparr>"

definition no_content_llm_service :: "(int list, string, nat) ChatbotService" where
  "no_content_llm_service = example_service\<lparr>llm_client := (\<lambda>req. Inr \<lparr>choices = [None]\<rparr>)\<rparr>"









section \<open>Properties of the prompt assembler\<close>
















section \<open>Properties of the service\<close>

lemma retrieve_context_trace:
  "snd (retrieve_context self v n tr) = tr @ [CollectionQuery [v] n query_include]"
  by (simp add: retrieve_context_def Let_def split: sum.splits)

lemma retrieve_context_result:
  "fst (retrieve_context self v n tr) = fst (retrieve_context self v n [])"
  by (simp add: retrieve_context_def Let_def split: sum.splits)

lemma generate_llm_response_trace:
  "snd (generate_llm_response self prompt tr) = tr @ [ChatCompletionsCreate (chat_request prompt)]"
  by (simp add: generate_llm_response_def Let_def split: sum.splits list.splits option.splits)

lemma generate_llm_response_result:
  "fst (generate_llm_response self prompt tr) = fst (generate_llm_response self prompt [])"
  by (simp add: generate_llm_response_def Let_def split: sum.splits list.splits option.splits)

lemma get_rag_response_unfold:
  "get_rag_response self query tr =
     (case embedding_model self query of
        Inl e \<Rightarrow> (Inl e, tr @ [Encode query])
      | Inr v \<Rightarrow>
          (let docs = fst (fst (retrieve_context self v 3 []));
               prompt = construct_prompt query docs
           in (Inr (fst (generate_llm_response self prompt [])),
               tr @ [Encode query, CollectionQuery [v] 3 query_include,
                     ChatCompletionsCreate (chat_request prompt)])))"
proof (cases "embedding_model self query")
  case (Inl e)
  then show ?thesis by (simp add: get_rag_response_def embed_query_def)
next
  case (Inr v)
  obtain docs metas dists tr2 where
    r: "retrieve_context self v 3 (tr @ [Encode query]) = ((docs, metas, dists), tr2)"
    by (metis prod_cases3 surj_pair)
  have tr2: "tr2 = tr @ [Encode query, CollectionQuery [v] 3 query_include]"
    using retrieve_context_trace [of self v 3 "tr @ [Encode query]"] r by simp
  have "fst (retrieve_context self v 3 []) = (docs, metas, dists)"
    using retrieve_context_result [of self v 3 "tr @ [Encode query]"] r by (metis fst_conv)
  then have docs: "docs = fst (fst (retrieve_context self v 3 []))"
    by simp
  obtain final tr3 where
    g: "generate_llm_response self (construct_prompt query docs) tr2 = (final, tr3)"
    by (metis surj_pair)
  have tr3: "tr3 = tr2 @ [ChatCompletionsCreate (chat_request (construct_prompt query docs))]"
    using generate_llm_response_trace [of self "construct_prompt query docs" tr2] g by simp
  have final: "final = fst (generate_llm_response self (construct_prompt query docs) [])"
    using generate_llm_response_result [of self "construct_prompt query docs" tr2] g by simp
  have "get_rag_response self query tr = (Inr final, tr3)"
    by (simp add: get_rag_response_def embed_query_def Inr r g)
  with tr2 tr3 final docs Inr show ?thesis by (simp add: Let_def)
qed

lemma apology_not_empty: "apology \<noteq> []"
  by (simp add: apology_def)

lemma strip_empty_iff: "strip s = [] \<longleftrightarrow> (\<forall>c \<in> set s. isspace c)"
proof
  assume "strip s = []"
  then have all: "\<forall>c \<in> set (dropWhile isspace s). isspace c"
    by (simp add: strip_def rstrip_def lstrip_def dropWhile_eq_Nil_conv)
  have "dropWhile isspace s = []"
  proof (rule ccontr)
    assume ne: "dropWhile isspace s \<noteq> []"
    then have "\<not> isspace (hd (dropWhile isspace s))" by (rule hd_dropWhile)
    moreover from ne have "hd (dropWhile isspace s) \<in> set (dropWhile isspace s)" by simp
    ultimately show False using all by blast
  qed
  then show "\<forall>c \<in> set s. isspace c" by (simp add: dropWhile_eq_Nil_conv)
next
  assume "\<forall>c \<in> set s. isspace c"
  then show "strip s = []"
    by (auto simp: strip_def rstrip_def lstrip_def dest: set_dropWhileD)
qed

text \<open>
  C4. If the vector-index query raises, \<open>_retrieve_context\<close> returns the empty retrieval
  result (no documents, no metadatas, no distances) after that one call; its result type
  has no exception, so nothing is propagated.
\<close>

theorem C4_retrieve_fail_soft:
  assumes "collection self [query_embedding] n_results query_include = Inl e"
  shows "retrieve_context self query_embedding n_results tr
           = (([], [], []), tr @ [CollectionQuery [query_embedding] n_results query_include])"
  using assms by (simp add: retrieve_context_def)

theorem C4_retrieve_fail_soft_witness:
  "collection failing_index_service [[1, 2]] 3 query_include = Inl (PyException ''InternalError'')
   \<and> retrieve_context failing_index_service [1, 2] 3 []
        = (([], [], []), [CollectionQuery [[1, 2]] 3 query_include])"
proof -
  have h: "collection failing_index_service [[1, 2]] 3 query_include
             = Inl (PyException ''InternalError'')"
    by (simp add: failing_index_service_def)
  from h C4_retrieve_fail_soft [OF h, of "[]"] show ?thesis by simp
qed

text \<open>
  C5. If the chat-completion call raises, \<open>_generate_llm_response\<close> returns the fixed apology
  string. The same holds when the call returns a response that cannot be read: no choice,
  or a first choice whose content is \<open>None\<close>.
\<close>

theorem C5_generate_fail_soft:
  assumes "llm_client self (chat_request prompt) = Inl e
           \<or> (\<exists>r. llm_client self (chat_request prompt) = Inr r
                  \<and> (choices r = [] \<or> (\<exists>cs. choices r = None # cs)))"
  shows "generate_llm_response self prompt tr
           = (apology, tr @ [ChatCompletionsCreate (chat_request prompt)])"
  using assms by (auto simp: generate_llm_response_def)

theorem C5_generate_fail_soft_witness:
  "llm_client failing_llm_service (chat_request ''p'') = Inl (PyException ''APIConnectionError'')
   \<and> generate_llm_response failing_llm_service ''p'' []
        = (apology, [ChatCompletionsCreate (chat_request ''p'')])
   \<and> generate_llm_response no_choice_llm_service ''p'' []
        = (apology, [ChatCompletionsCreate (chat_request ''p'')])
   \<and> generate_llm_response no_content_llm_service ''p'' []
        = (apology, [ChatCompletionsCreate (chat_request ''p'')])"
proof -
  have h1: "llm_client failing_llm_service (chat_request ''p'') = Inl (PyException ''APIConnectionError'')"
    by (simp add: failing_llm_service_def)
  have h2: "llm_client no_choice_llm_service (chat_request ''p'') = Inr \<lparr>choices = []\<rparr>"
    by (simp add: no_choice_llm_service_def)
  have h3: "llm_client no_content_llm_service (chat_request ''p'') = Inr \<lparr>choices = [None]\<rparr>"
    by (simp add: no_content_llm_service_def)
  have a: "generate_llm_response failing_llm_service ''p'' []
        = (apology, [ChatCompletionsCreate (chat_request ''p'')])"
    using C5_generate_fail_soft [of failing_llm_service "''p''" _ "[]"] h1 by simp
  have b: "generate_llm_response no_choice_llm_service ''p'' []
        = (apology, [ChatCompletionsCreate (chat_request ''p'')])"
    using C5_generate_fail_soft [of no_choice_llm_service "''p''" _ "[]"] h2 by simp
  have c: "generate_llm_response no_content_llm_service ''p'' []
        = (apology, [ChatCompletionsCreate (chat_request ''p'')])"
    using C5_generate_fail_soft [of no_content_llm_service "''p''" _ "[]"] h3 by simp
  from h1 a b c show ?thesis by simp
qed

text \<open>
  C7. \<open>get_rag_response\<close> is the sequential composition of the stages: the answer is what
  \<open>_generate_llm_response\<close> returns on the prompt that \<open>_construct_prompt\<close> builds from the
  query and the document texts of \<open>_retrieve_context\<close> (called with the query's embedding
  and \<open>n_results = 3\<close>); the metadatas and distances do not enter the prompt. The calls
  issued are exactly one \<open>encode\<close>, one collection query and one chat completion, in this
  order: no stage is retried. When \<open>encode\<close> raises, the exception is the outcome and no
  later stage runs. (The results of the stages do not depend on the trace they are given,
  so they are written on the empty trace.)
\<close>

theorem C7_pipeline_composition:
  "get_rag_response self query tr =
     (case embedding_model self query of
        Inl e \<Rightarrow> (Inl e, tr @ [Encode query])
      | Inr v \<Rightarrow>
          (let docs = fst (fst (retrieve_context self v 3 []));
               prompt = construct_prompt query docs
           in (Inr (fst (generate_llm_response self prompt [])),
               tr @ [Encode query, CollectionQuery [v] 3 query_include,
                     ChatCompletionsCreate (chat_request prompt)])))"
  by (rule get_rag_response_unfold)

lemma generate_llm_response_empty_iff:
  "fst (generate_llm_response self prompt tr) = [] \<longleftrightarrow>
     (\<exists>r text cs. llm_client self (chat_request prompt) = Inr r
        \<and> choices r = Some text # cs \<and> (\<forall>c \<in> set text. isspace c))"
proof (cases "llm_client self (chat_request prompt)")
  case (Inl e)
  then show ?thesis by (simp add: generate_llm_response_def Let_def apology_not_empty)
next
  case (Inr r)
  show ?thesis
  proof (cases "choices r")
    case Nil
    with Inr show ?thesis by (simp add: generate_llm_response_def Let_def apology_not_empty)
  next
    case (Cons c cs)
    show ?thesis
    proof (cases c)
      case None
      with Inr Cons show ?thesis
        by (simp add: generate_llm_response_def Let_def apology_not_empty)
    next
      case (Some t)
      with Inr Cons show ?thesis
        by (simp add: generate_llm_response_def Let_def strip_empty_iff)
    qed
  qed
qed

text \<open>
  C1 (as stated) fails on the code in two ways. The chat completion may return content
  that is empty or only whitespace: \<open>strip\<close> then leaves the empty string, which is
  returned as the answer. And \<open>_embed_query\<close> is not inside any \<open>try\<close>: an exception of
  \<open>encode\<close> leaves \<open>get_rag_response\<close>.
\<close>

theorem C1_nonempty_answer_counterexample:
  "''What are my payment options?'' \<noteq> []
   \<and> fst (get_rag_response blank_llm_service ''What are my payment options?'' []) = Inr []
   \<and> fst (get_rag_response failing_embedding_service ''What are my payment options?'' [])
        = Inl (PyException ''RuntimeError'')"
proof -
  have a: "fst (get_rag_response blank_llm_service ''What are my payment options?'' []) = Inr []"
    by (simp add: get_rag_response_unfold blank_llm_service_def example_service_def
          generate_llm_response_def strip_def rstrip_def lstrip_def isspace_def)
  have b: "fst (get_rag_response failing_embedding_service ''What are my payment options?'' [])
        = Inl (PyException ''RuntimeError'')"
    by (simp add: get_rag_response_unfold failing_embedding_service_def)
  from a b show ?thesis by simp
qed

text \<open>
  C1 (amended). For every query, empty or not: \<open>get_rag_response\<close> raises exactly when
  \<open>encode\<close> raises, and then with that exception; failures of retrieval and of generation
  never leave it. When \<open>encode\<close> returns, it returns an answer string, and that string is
  empty exactly when the chat completion's first choice has content that is empty or
  whitespace only.
\<close>

theorem C1_answer_returned_when_embedded:
  "(\<forall>e. embedding_model self query = Inl e \<longrightarrow> fst (get_rag_response self query tr) = Inl e)
   \<and> (\<forall>v. embedding_model self query = Inr v \<longrightarrow>
         (\<exists>answer. fst (get_rag_response self query tr) = Inr answer
            \<and> (answer = [] \<longleftrightarrow>
                 (\<exists>r text cs.
                    llm_client self
                      (chat_request (construct_prompt query (fst (fst (retrieve_context self v 3 [])))))
                      = Inr r
                    \<and> choices r = Some text # cs \<and> (\<forall>c \<in> set text. isspace c)))))"
  by (simp add: get_rag_response_unfold Let_def generate_llm_response_empty_iff)

theorem C1_answer_returned_when_embedded_witness:
  "embedding_model example_service ''What are my payment options?'' = Inr [1, 2]
   \<and> (\<exists>answer. fst (get_rag_response example_service ''What are my payment options?'' []) = Inr answer
         \<and> answer \<noteq> [])
   \<and> embedding_model failing_embedding_service ''What are my payment options?''
        = Inl (PyException ''RuntimeError'')
   \<and> fst (get_rag_response failing_embedding_service ''What are my payment options?'' [])
        = Inl (PyException ''RuntimeError'')"
proof -
  have h1: "embedding_model example_service ''What are my payment options?'' = Inr [1, 2]"
    by (simp add: example_service_def)
  have h2: "embedding_model failing_embedding_service ''What are my payment options?''
        = Inl (PyException ''RuntimeError'')"
    by (simp add: failing_embedding_service_def)
  have not_blank: "\<not> (\<exists>r text cs. llm_client example_service
                      (chat_request (construct_prompt ''What are my payment options?''
                         (fst (fst (retrieve_context example_service [1, 2] 3 [])))))
                      = Inr r
                    \<and> choices r = Some text # cs \<and> (\<forall>c \<in> set text. isspace c))"
    by (auto simp: example_service_def isspace_def)
  have a: "\<exists>answer. fst (get_rag_response example_service ''What are my payment options?'' []) = Inr answer
         \<and> answer \<noteq> []"
    using C1_answer_returned_when_embedded
            [of example_service "''What are my payment options?''" "[]"] h1 not_blank
    by blast
  have b: "fst (get_rag_response failing_embedding_service ''What are my payment options?'' [])
        = Inl (PyException ''RuntimeError'')"
    using C1_answer_returned_when_embedded
            [of failing_embedding_service "''What are my payment options?''" "[]"] h2
    by blast
  from h1 a h2 b show ?thesis by simp
qed

section \<open>Properties of the HTTP handler\<close>

text \<open>
  C6 (as stated) fails on the code: the handler tests the service handle first, so while
  the service is unavailable a blank query is answered with 503, not with 400.
\<close>

theorem C6_blank_query_400_counterexample:
  "strip ''   '' = []
   \<and> fst (handle_chat_query (None :: (int list, string, nat) ChatbotService option) ''   '' [])
        = HTTPException 503 ''Chatbot service is currently unavailable. Please check server logs.''"
  by (simp add: handle_chat_query_def strip_def rstrip_def lstrip_def isspace_def)

text \<open>
  C6 (amended). For every query that is empty or consists of whitespace only: when the
  service was constructed, the handler raises HTTP 400 with the detail "Query cannot be
  empty."; and whether or not the service was constructed, it issues no call to the
  embedding model, the vector index or the LLM.
\<close>

theorem C6_blank_query_rejected:
  assumes "\<forall>c \<in> set query. isspace c"
  shows "handle_chat_query (Some service) query tr = (HTTPException 400 ''Query cannot be empty.'', tr)
         \<and> snd (handle_chat_query inst query tr) = tr"
proof -
  from assms have "strip query = []" by (simp add: strip_empty_iff)
  then show ?thesis by (simp add: handle_chat_query_def split: option.splits)
qed

theorem C6_blank_query_rejected_witness:
  "list_all isspace '' ''
   \<and> handle_chat_query (Some example_service) '' '' []
        = (HTTPException 400 ''Query cannot be empty.'', [])
   \<and> snd (handle_chat_query (None :: (int list, string, nat) ChatbotService option) '' '' []) = []"
proof -
  have h: "\<forall>c \<in> set '' ''. isspace c" by (simp add: isspace_def)
  from h C6_blank_query_rejected [OF h, of example_service "[]" None]
  show ?thesis by (simp add: list_all_iff)
qed

text \<open>
  C10. While the service handle is \<open>None\<close>, the handler raises HTTP 503 for every query and
  calls nothing: the test of the handle stands before the test of the query, so an empty
  or whitespace-only query gets 503 there and not 400.
\<close>

theorem C10_unavailable_before_validation:
  "handle_chat_query None query tr
     = (HTTPException 503 ''Chatbot service is currently unavailable. Please check server logs.'', tr)
   \<and> status_code (fst (handle_chat_query None query tr)) = 503
   \<and> status_code (fst (handle_chat_query None query tr)) \<noteq> 400"
  by (simp add: handle_chat_query_def)

section \<open>Properties of the offline builder\<close>





















end
